theory Spec2Isabelle
  imports Complex_Main
begin

section \<open>JSON values and Python dictionaries\<close>

text \<open>
  The SDK marshals its arguments into JSON bodies and query strings. A Python \<open>dict\<close>
  keeps its keys in insertion order; it is modelled as an association list, and a JSON
  value as the datatype below (\<open>None\<close> is \<open>JNull\<close>; floating-point numbers are
  not modelled).
\<close>

datatype json =
    JNull
  | JBool bool
  | JInt int
  | JStr string
  | JList "json list"
  | JObj "(string \<times> json) list"

type_synonym jdict = "(string \<times> json) list"

text \<open>\<open>d[k] = v\<close>: an existing key keeps its position, a new key goes last.\<close>

fun dict_set :: "'k \<Rightarrow> 'v \<Rightarrow> ('k \<times> 'v) list \<Rightarrow> ('k \<times> 'v) list" where
  "dict_set k v [] = [(k, v)]"
| "dict_set k v ((k', v') # d) = (if k' = k then (k, v) # d else (k', v') # dict_set k v d)"

text \<open>\<open>d.get(k, default)\<close>.\<close>

definition dict_get :: "('k \<times> 'v) list \<Rightarrow> 'k \<Rightarrow> 'v \<Rightarrow> 'v" where
  "dict_get d k dflt = (case map_of d k of None \<Rightarrow> dflt | Some v \<Rightarrow> v)"

definition dict_keys :: "('k \<times> 'v) list \<Rightarrow> 'k list" where
  "dict_keys d = map fst d"

text \<open>
  Python truthiness of an optional string, list or dictionary (all three are lists in
  the model): \<open>None\<close> and the empty value are falsy.
\<close>

definition truthy :: "'a list option \<Rightarrow> bool" where
  "truthy x = (case x of None \<Rightarrow> False | Some v \<Rightarrow> v \<noteq> [])"

text \<open>\<open>x or {}\<close> for an optional dictionary \<open>x\<close>.\<close>

definition or_empty :: "'a list option \<Rightarrow> 'a list" where
  "or_empty x = (if truthy x then the x else [])"

section \<open>The agent swarm module (\<open>ainative/agent_swarm/__init__.py\<close>)\<close>

datatype AgentType =
    RESEARCHER | CODER | REVIEWER | TESTER | DOCUMENTER | ANALYST | DESIGNER | ORCHESTRATOR

fun AgentType_value :: "AgentType \<Rightarrow> string" where
  "AgentType_value RESEARCHER = ''researcher''"
| "AgentType_value CODER = ''coder''"
| "AgentType_value REVIEWER = ''reviewer''"
| "AgentType_value TESTER = ''tester''"
| "AgentType_value DOCUMENTER = ''documenter''"
| "AgentType_value ANALYST = ''analyst''"
| "AgentType_value DESIGNER = ''designer''"
| "AgentType_value ORCHESTRATOR = ''orchestrator''"

text \<open>
  What a resource method hands to its parent client: the convenience method it calls
  (\<open>get\<close>, \<open>post\<close> or \<open>put\<close>), the endpoint path, and the keyword argument
  (\<open>params=\<close> for \<open>get\<close>, \<open>data=\<close> for \<open>post\<close> and \<open>put\<close>); \<open>None\<close> when the
  keyword is not passed.
\<close>

datatype parent_call =
    Get string "jdict option"
  | Post string "jdict option"
  | Put string "jdict option"

fun call_payload :: "parent_call \<Rightarrow> jdict option" where
  "call_payload (Get _ d) = d"
| "call_payload (Post _ d) = d"
| "call_payload (Put _ d) = d"

text \<open>
  The parent client is the object the swarm client holds a reference to. Its module is
  not part of the sources at hand, so it is a parameter: a function from the call it
  receives to the exception it raises (\<open>Inl\<close>) or the dictionary it returns.
\<close>

record 'e AgentSwarmClient =
  client :: "parent_call \<Rightarrow> 'e + jdict"
  base_path :: string

definition AgentSwarmClient_init :: "(parent_call \<Rightarrow> 'e + jdict) \<Rightarrow> 'e AgentSwarmClient" where
  "AgentSwarmClient_init c = \<lparr> client = c, base_path = ''/agent-swarm'' \<rparr>"

text \<open>
  A method call yields the object after the call, the call dispatched to the parent, and
  the method's result (the parent's exception propagates).
\<close>

type_synonym ('e, 'r) outcome = "'e AgentSwarmClient \<times> parent_call \<times> ('e + 'r)"

definition dispatch :: "'e AgentSwarmClient \<Rightarrow> parent_call \<Rightarrow> ('e, jdict) outcome" where
  "dispatch self c = (self, c, client self c)"

text \<open>\<open>response.get(key, [])\<close> on the parent's result.\<close>

definition unwrap :: "string \<Rightarrow> ('e, jdict) outcome \<Rightarrow> ('e, json) outcome" where
  "unwrap key out =
     (case out of (self, c, res) \<Rightarrow>
        (self, c, (case res of Inl e \<Rightarrow> Inl e
                   | Inr response \<Rightarrow> Inr (dict_get response key (JList [])))))"

definition start_swarm ::
  "'e AgentSwarmClient \<Rightarrow> string \<Rightarrow> jdict list \<Rightarrow> string \<Rightarrow> jdict option \<Rightarrow> ('e, jdict) outcome" where
  "start_swarm self project_id agents objective config =
     (let data = [(''project_id'', JStr project_id),
                  (''agents'', JList (map JObj agents)),
                  (''objective'', JStr objective),
                  (''config'', JObj (or_empty config))]
      in dispatch self (Post (base_path self @ ''/start'') (Some data)))"

definition orchestrate ::
  "'e AgentSwarmClient \<Rightarrow> string \<Rightarrow> string \<Rightarrow> jdict option \<Rightarrow> string list option
     \<Rightarrow> ('e, jdict) outcome" where
  "orchestrate self swarm_id task context agents =
     (let data = [(''swarm_id'', JStr swarm_id),
                  (''task'', JStr task),
                  (''context'', JObj (or_empty context))];
          data = (if truthy agents
                  then dict_set ''agents'' (JList (map JStr (the agents))) data
                  else data)
      in dispatch self (Post (base_path self @ ''/orchestrate'') (Some data)))"

definition get_status :: "'e AgentSwarmClient \<Rightarrow> string \<Rightarrow> ('e, jdict) outcome" where
  "get_status self swarm_id =
     dispatch self (Get (base_path self @ ''/'' @ swarm_id @ ''/status'') None)"

definition get_metrics ::
  "'e AgentSwarmClient \<Rightarrow> string option \<Rightarrow> string option \<Rightarrow> ('e, jdict) outcome" where
  "get_metrics self swarm_id project_id =
     (let params = [];
          params = (if truthy swarm_id
                    then dict_set ''swarm_id'' (JStr (the swarm_id)) params else params);
          params = (if truthy project_id
                    then dict_set ''project_id'' (JStr (the project_id)) params else params)
      in dispatch self (Get (base_path self @ ''/metrics'') (Some params)))"

definition get_agent_types :: "'e AgentSwarmClient \<Rightarrow> ('e, json) outcome" where
  "get_agent_types self =
     unwrap ''agent_types'' (dispatch self (Get (base_path self @ ''/agent-types'') None))"

definition configure_agent ::
  "'e AgentSwarmClient \<Rightarrow> string \<Rightarrow> string \<Rightarrow> jdict \<Rightarrow> ('e, jdict) outcome" where
  "configure_agent self swarm_id agent_id config =
     dispatch self
       (Put (base_path self @ ''/'' @ swarm_id @ ''/agents/'' @ agent_id @ ''/config'')
            (Some config))"

definition set_agent_prompt ::
  "'e AgentSwarmClient \<Rightarrow> string \<Rightarrow> string \<Rightarrow> string \<Rightarrow> string option \<Rightarrow> ('e, jdict) outcome" where
  "set_agent_prompt self swarm_id agent_id prompt system_prompt =
     (let data = [(''prompt'', JStr prompt)];
          data = (if truthy system_prompt
                  then dict_set ''system_prompt'' (JStr (the system_prompt)) data else data)
      in dispatch self
           (Post (base_path self @ ''/'' @ swarm_id @ ''/agents/'' @ agent_id @ ''/prompt'')
                 (Some data)))"

definition stop_swarm :: "'e AgentSwarmClient \<Rightarrow> string \<Rightarrow> bool \<Rightarrow> ('e, jdict) outcome" where
  "stop_swarm self swarm_id force =
     (let data = [(''force'', JBool force)]
      in dispatch self (Post (base_path self @ ''/'' @ swarm_id @ ''/stop'') (Some data)))"

definition pause_swarm :: "'e AgentSwarmClient \<Rightarrow> string \<Rightarrow> ('e, jdict) outcome" where
  "pause_swarm self swarm_id =
     dispatch self (Post (base_path self @ ''/'' @ swarm_id @ ''/pause'') None)"

definition resume_swarm :: "'e AgentSwarmClient \<Rightarrow> string \<Rightarrow> ('e, jdict) outcome" where
  "resume_swarm self swarm_id =
     dispatch self (Post (base_path self @ ''/'' @ swarm_id @ ''/resume'') None)"

definition get_swarm_history ::
  "'e AgentSwarmClient \<Rightarrow> string \<Rightarrow> int \<Rightarrow> ('e, json) outcome" where
  "get_swarm_history self swarm_id limit =
     (let params = [(''limit'', JInt limit)]
      in unwrap ''history''
           (dispatch self (Get (base_path self @ ''/'' @ swarm_id @ ''/history'') (Some params))))"

definition get_agent_communications ::
  "'e AgentSwarmClient \<Rightarrow> string \<Rightarrow> string option \<Rightarrow> ('e, json) outcome" where
  "get_agent_communications self swarm_id agent_id =
     (let params = [];
          params = (if truthy agent_id
                    then dict_set ''agent_id'' (JStr (the agent_id)) params else params)
      in unwrap ''communications''
           (dispatch self
              (Get (base_path self @ ''/'' @ swarm_id @ ''/communications'') (Some params))))"

definition create_agent ::
  "'e AgentSwarmClient \<Rightarrow> string \<Rightarrow> AgentType \<Rightarrow> string list \<Rightarrow> string \<Rightarrow> jdict option
     \<Rightarrow> ('e, jdict) outcome" where
  "create_agent self name agent_type capabilities prompt config =
     (let data = [(''name'', JStr name),
                  (''type'', JStr (AgentType_value agent_type)),
                  (''capabilities'', JList (map JStr capabilities)),
                  (''prompt'', JStr prompt),
                  (''config'', JObj (or_empty config))]
      in dispatch self (Post (base_path self @ ''/agents'') (Some data)))"

text \<open>Projections of a method call's outcome.\<close>

definition self_after :: "('e, 'r) outcome \<Rightarrow> 'e AgentSwarmClient" where
  "self_after out = fst out"

definition sent :: "('e, 'r) outcome \<Rightarrow> parent_call" where
  "sent out = fst (snd out)"

definition returned :: "('e, 'r) outcome \<Rightarrow> 'e + 'r" where
  "returned out = snd (snd out)"

definition body_of :: "('e, 'r) outcome \<Rightarrow> jdict" where
  "body_of out = (case call_payload (sent out) of None \<Rightarrow> [] | Some d \<Rightarrow> d)"

text \<open>A parent client that answers every call with the same dictionary.\<close>

definition answering :: "jdict \<Rightarrow> parent_call \<Rightarrow> unit + jdict" where
  "answering d c = Inr d"

text \<open>
  Every resource method as one value, so that a statement can range over all of them:
  \<open>invoke\<close> runs the method and keeps the object after the call and the call
  dispatched to the parent.
\<close>

datatype method_call =
    StartSwarm string "jdict list" string "jdict option"
  | Orchestrate string string "jdict option" "string list option"
  | GetStatus string
  | GetMetrics "string option" "string option"
  | GetAgentTypes
  | ConfigureAgent string string jdict
  | SetAgentPrompt string string string "string option"
  | StopSwarm string bool
  | PauseSwarm string
  | ResumeSwarm string
  | GetSwarmHistory string int
  | GetAgentCommunications string "string option"
  | CreateAgent string AgentType "string list" string "jdict option"

definition effect :: "('e, 'r) outcome \<Rightarrow> 'e AgentSwarmClient \<times> parent_call" where
  "effect out = (self_after out, sent out)"

fun invoke :: "'e AgentSwarmClient \<Rightarrow> method_call \<Rightarrow> 'e AgentSwarmClient \<times> parent_call" where
  "invoke self (StartSwarm p a ob c) = effect (start_swarm self p a ob c)"
| "invoke self (Orchestrate s t c a) = effect (orchestrate self s t c a)"
| "invoke self (GetStatus s) = effect (get_status self s)"
| "invoke self (GetMetrics s p) = effect (get_metrics self s p)"
| "invoke self GetAgentTypes = effect (get_agent_types self)"
| "invoke self (ConfigureAgent s a c) = effect (configure_agent self s a c)"
| "invoke self (SetAgentPrompt s a p sp) = effect (set_agent_prompt self s a p sp)"
| "invoke self (StopSwarm s f) = effect (stop_swarm self s f)"
| "invoke self (PauseSwarm s) = effect (pause_swarm self s)"
| "invoke self (ResumeSwarm s) = effect (resume_swarm self s)"
| "invoke self (GetSwarmHistory s l) = effect (get_swarm_history self s l)"
| "invoke self (GetAgentCommunications s a) = effect (get_agent_communications self s a)"
| "invoke self (CreateAgent n t cs p c) = effect (create_agent self n t cs p c)"

text \<open>The object after a sequence of method calls.\<close>

fun after_calls :: "'e AgentSwarmClient \<Rightarrow> method_call list \<Rightarrow> 'e AgentSwarmClient" where
  "after_calls self [] = self"
| "after_calls self (m # ms) = after_calls (fst (invoke self m)) ms"

section \<open>The exception hierarchy (\<open>ainative/exceptions.py\<close>)\<close>

text \<open>
  Modelled from the spec: the module \<open>ainative/exceptions.py\<close> is not among the
  sources; only its unit tests are. The classes are those the tests import, next to the
  two built-in classes the client meets (\<open>Exception\<close>, \<open>ValueError\<close>).
\<close>

datatype exc_class =
    Exception | ValueError | AINativeException
  | AuthenticationError | APIError | NetworkError | ValidationError
  | RateLimitError | ResourceNotFoundError | TimeoutError

text \<open>
  Modelled from the spec: the base of each class of the missing module. The spec makes
  every SDK exception a subclass of \<open>AINativeException\<close>, which the tests make a
  subclass of \<open>Exception\<close>; each SDK class is taken to derive from the base directly.
\<close>

fun base_class :: "exc_class \<Rightarrow> exc_class option" where
  "base_class Exception = None"
| "base_class ValueError = Some Exception"
| "base_class AINativeException = Some Exception"
| "base_class AuthenticationError = Some AINativeException"
| "base_class APIError = Some AINativeException"
| "base_class NetworkError = Some AINativeException"
| "base_class ValidationError = Some AINativeException"
| "base_class RateLimitError = Some AINativeException"
| "base_class ResourceNotFoundError = Some AINativeException"
| "base_class TimeoutError = Some AINativeException"

text \<open>
  Python's \<open>issubclass\<close> over this hierarchy, which is two levels deep: a class, its
  base, or the base of its base.
\<close>

definition issubclass :: "exc_class \<Rightarrow> exc_class \<Rightarrow> bool" where
  "issubclass c d =
     (c = d \<or> (case base_class c of None \<Rightarrow> False
                | Some b \<Rightarrow> b = d \<or> base_class b = Some d))"

text \<open>
  Modelled from the spec: the \<open>error_code\<close> each class of the missing module sets, as
  the unit tests read it; the base class leaves it \<open>None\<close>, and the built-in
  classes have no such attribute.
\<close>

fun error_code :: "exc_class \<Rightarrow> string option" where
  "error_code AuthenticationError = Some ''AUTH_ERROR''"
| "error_code APIError = Some ''API_ERROR''"
| "error_code NetworkError = Some ''NETWORK_ERROR''"
| "error_code ValidationError = Some ''VALIDATION_ERROR''"
| "error_code RateLimitError = Some ''RATE_LIMIT''"
| "error_code ResourceNotFoundError = Some ''NOT_FOUND''"
| "error_code TimeoutError = Some ''TIMEOUT''"
| "error_code _ = None"

text \<open>
  Modelled from the spec: an exception object of the missing module, with its class and
  the fields the spec names (\<open>status_code\<close> and \<open>response_body\<close> of \<open>APIError\<close>,
  \<open>retry_after\<close> of \<open>RateLimitError\<close>); messages are left out.
\<close>

datatype exn =
  Exn (exn_class: exc_class) (exn_status_code: "int option")
      (exn_response_body: "string option") (exn_retry_after: "int option")

text \<open>Modelled from the spec: \<open>raise ValueError(...)\<close> of the missing auth module.\<close>

definition raise_ValueError :: exn where
  "raise_ValueError = Exn ValueError None None None"

text \<open>Modelled from the spec: \<open>raise AuthenticationError(...)\<close> of the missing client.\<close>

definition raise_AuthenticationError :: exn where
  "raise_AuthenticationError = Exn AuthenticationError None None None"

text \<open>
  Modelled from the spec: \<open>raise RateLimitError(..., retry_after=ra)\<close> of the missing
  client; the field is \<open>None\<close> by default.
\<close>

definition raise_RateLimitError :: "int option \<Rightarrow> exn" where
  "raise_RateLimitError ra = Exn RateLimitError None None ra"

text \<open>
  Modelled from the spec: \<open>raise APIError(..., status_code=sc, response_body=body)\<close>
  of the missing client.
\<close>

definition raise_APIError :: "int \<Rightarrow> string \<Rightarrow> exn" where
  "raise_APIError sc body = Exn APIError (Some sc) (Some body) None"

text \<open>Modelled from the spec: \<open>raise NetworkError(...)\<close> of the missing client.\<close>

definition raise_NetworkError :: exn where
  "raise_NetworkError = Exn NetworkError None None None"

section \<open>Authentication headers (\<open>ainative/auth.py\<close>)\<close>

text \<open>
  Modelled from the spec: \<open>AuthConfig\<close> of the missing module \<open>ainative/auth.py\<close>,
  with the two fields the header construction reads.
\<close>

record AuthConfig =
  api_key :: "string option"
  api_secret :: "string option"

text \<open>
  The decimal numeral of a natural number (\<open>str\<close> of a non-negative \<open>int\<close>), and the
  integer a string of decimal digits spells (\<open>int\<close> of such a string; any other
  string has no value here).
\<close>

function decimal :: "nat \<Rightarrow> string" where
  "decimal n = (if n < 10 then [''0123456789'' ! n]
                else decimal (n div 10) @ [''0123456789'' ! (n mod 10)])"
  by pat_completeness auto
termination
  by (relation "measure id") auto

declare decimal.simps [simp del]

definition is_digit :: "char \<Rightarrow> bool" where
  "is_digit c = (c \<in> set ''0123456789'')"

definition int_of_decimal :: "string \<Rightarrow> int option" where
  "int_of_decimal s =
     (if s \<noteq> [] \<and> list_all is_digit s
      then Some (foldl (\<lambda>a c. 10 * a + (of_char c - 48)) 0 s)
      else None)"

text \<open>
  Modelled from the spec: \<open>APIKeyAuth._generate_signature\<close> of the missing auth module:
  the base64 encoding of the HMAC-SHA256 digest, keyed by the API secret, of the API key
  followed by the timestamp. HMAC-SHA256 and base64 are library functions and are
  parameters. It is called only when both key and secret are set.
\<close>

definition generate_signature ::
  "(string \<Rightarrow> string \<Rightarrow> string) \<Rightarrow> (string \<Rightarrow> string) \<Rightarrow> AuthConfig \<Rightarrow> string \<Rightarrow> string" where
  "generate_signature hmac_sha256 b64encode cfg timestamp =
     b64encode (hmac_sha256 (the (api_secret cfg)) (the (api_key cfg) @ timestamp))"

text \<open>
  Modelled from the spec: \<open>APIKeyAuth.get_headers\<close> of the missing auth module. It
  raises \<open>ValueError\<close> when no API key is configured; otherwise the headers are the
  API key, the SDK version and language and, when an API secret is set, the timestamp
  and the signature. \<open>now\<close> is the clock reading, in whole seconds of Unix time. A key
  or secret is taken as set when it is truthy, as everywhere in the SDK's sources.
\<close>

definition get_headers ::
  "(string \<Rightarrow> string \<Rightarrow> string) \<Rightarrow> (string \<Rightarrow> string) \<Rightarrow> nat \<Rightarrow> AuthConfig
     \<Rightarrow> exn + (string \<times> string) list" where
  "get_headers hmac_sha256 b64encode now cfg =
     (if \<not> truthy (api_key cfg) then Inl raise_ValueError
      else
        let headers = [(''X-API-Key'', the (api_key cfg)),
                       (''X-SDK-Version'', ''0.1.0''),
                       (''X-SDK-Language'', ''Python'')];
            headers =
              (if truthy (api_secret cfg)
               then let timestamp = decimal now;
                        headers = dict_set ''X-Timestamp'' timestamp headers
                    in dict_set ''X-Signature''
                         (generate_signature hmac_sha256 b64encode cfg timestamp) headers
               else headers)
        in Inr headers)"

section \<open>The client: status mapping and retry (\<open>ainative/client.py\<close>)\<close>

text \<open>
  What the HTTP library hands back: the status, the body text, the body parsed as JSON
  and the headers.
\<close>

record response =
  status_code :: int
  response_text :: string
  json_value :: jdict
  headers :: "(string \<times> string) list"

text \<open>
  Modelled from the spec: which statuses the missing client treats as success; the spec
  speaks of "non-success status", read as any status outside 200..299.
\<close>

definition is_success :: "int \<Rightarrow> bool" where
  "is_success s = (200 \<le> s \<and> s < 300)"

text \<open>
  Modelled from the spec: the value the missing client returns for a successful
  response, its parsed JSON; the unit tests make it the empty dictionary when the body
  is empty.
\<close>

definition parsed_json :: "response \<Rightarrow> jdict" where
  "parsed_json r = (if response_text r = [] then [] else json_value r)"

text \<open>
  Modelled from the spec: the status mapping of the missing client's \<open>request\<close>. 429
  raises \<open>RateLimitError\<close> with the integer value of the \<open>Retry-After\<close> header (the
  field keeps its default when the header is absent or no decimal number), 401 raises
  \<open>AuthenticationError\<close>, any other non-success status raises \<open>APIError\<close> with the
  status and the body; a success returns the parsed JSON.
\<close>

definition handle_response :: "response \<Rightarrow> exn + jdict" where
  "handle_response r =
     (if status_code r = 429
      then Inl (raise_RateLimitError
                  (Option.bind (map_of (headers r) ''Retry-After'') int_of_decimal))
      else if status_code r = 401 then Inl raise_AuthenticationError
      else if \<not> is_success (status_code r)
      then Inl (raise_APIError (status_code r) (response_text r))
      else Inr (parsed_json r))"

text \<open>
  Modelled from the spec: \<open>ClientConfig\<close> of the missing client module, with the two
  fields the retry reads. The delay is a real number, not a float.
\<close>

record ClientConfig =
  max_retries :: nat
  retry_delay :: real

text \<open>Modelled from the spec: the defaults of \<open>ClientConfig\<close> the unit tests assert.\<close>

definition default_config :: ClientConfig where
  "default_config = \<lparr> max_retries = 3, retry_delay = 1 \<rparr>"

text \<open>
  Modelled from the spec: the fields of the missing \<open>AINativeClient\<close> that a request
  reads.
\<close>

record AINativeClient =
  auth_config :: AuthConfig
  config :: ClientConfig
  organization_id :: "string option"

text \<open>
  What one underlying HTTP attempt does: it returns a response, or raises a connection
  error or a timeout of the HTTP library. The transport is a parameter giving the result
  of each attempt by its index.
\<close>

datatype transport_result = Returned response | ConnectionFailed | TimedOut

fun transient :: "transport_result \<Rightarrow> bool" where
  "transient (Returned _) = False"
| "transient ConnectionFailed = True"
| "transient TimedOut = True"

text \<open>
  Modelled from the spec: what the missing client passes to the HTTP library at each
  attempt, and what a request does that can be observed: attempts and sleeps, in order.
\<close>

record http_call =
  call_method :: string
  call_url :: string
  call_json :: "jdict option"
  call_params :: "jdict option"
  call_headers :: "(string \<times> string) list"

datatype event = Attempt http_call | Sleep real

text \<open>
  Modelled from the spec: how the missing client merges the caller's headers into the
  auth headers "without replacing" them: a custom header is added unless a header of
  that name is there already.
\<close>

fun merge_headers ::
  "(string \<times> string) list \<Rightarrow> (string \<times> string) list \<Rightarrow> (string \<times> string) list" where
  "merge_headers hs [] = hs"
| "merge_headers hs ((k, v) # custom) =
     merge_headers (if k \<in> set (dict_keys hs) then hs else dict_set k v hs) custom"

text \<open>
  Modelled from the spec: the headers of a request of the missing client: the auth
  headers (or their \<open>ValueError\<close>), \<open>X-Organization-ID\<close> when the client has an
  organization, and the caller's headers merged in.
\<close>

definition request_headers ::
  "(string \<Rightarrow> string \<Rightarrow> string) \<Rightarrow> (string \<Rightarrow> string) \<Rightarrow> nat \<Rightarrow> AINativeClient
     \<Rightarrow> (string \<times> string) list \<Rightarrow> exn + (string \<times> string) list" where
  "request_headers hmac_sha256 b64encode now self custom =
     (case get_headers hmac_sha256 b64encode now (auth_config self) of
        Inl e \<Rightarrow> Inl e
      | Inr hs \<Rightarrow>
          let hs = (if truthy (organization_id self)
                    then dict_set ''X-Organization-ID'' (the (organization_id self)) hs
                    else hs)
          in Inr (merge_headers hs custom))"

text \<open>
  Modelled from the spec: the retry loop of the missing client's \<open>request\<close>, with
  \<open>attempt\<close> the index of the next attempt and the last argument the attempts left.
  A response ends the loop through the status mapping. A connection error or timeout
  ends it with \<open>NetworkError\<close> when it was the last attempt allowed; otherwise the
  client sleeps and tries again. The spec says the backoff is linear and does not give
  its formula; the value slept here, \<open>retry_delay * (attempt + 1)\<close>, is one such
  reading, and no property below depends on it. With no attempt allowed at all the
  spec's outcome, \<open>NetworkError\<close> after \<open>max_retries\<close> attempts, is kept.
\<close>

fun attempt_loop ::
  "real \<Rightarrow> (nat \<Rightarrow> transport_result) \<Rightarrow> http_call \<Rightarrow> nat \<Rightarrow> nat \<Rightarrow> (exn + jdict) \<times> event list" where
  "attempt_loop delay transport c attempt 0 = (Inl raise_NetworkError, [])"
| "attempt_loop delay transport c attempt (Suc left) =
     (case transport attempt of
        Returned r \<Rightarrow> (handle_response r, [Attempt c])
      | _ \<Rightarrow>
          if left = 0 then (Inl raise_NetworkError, [Attempt c])
          else (case attempt_loop delay transport c (Suc attempt) left of
                  (res, evs) \<Rightarrow> (res, Attempt c # Sleep (delay * real (Suc attempt)) # evs)))"

declare attempt_loop.simps(2) [simp del]

text \<open>
  Modelled from the spec: \<open>AINativeClient.request\<close> of the missing client module:
  compose the headers, then dispatch with retry. The result is what the request returns
  or raises, with the attempts and sleeps it made.
\<close>

definition request ::
  "(string \<Rightarrow> string \<Rightarrow> string) \<Rightarrow> (string \<Rightarrow> string) \<Rightarrow> nat \<Rightarrow> (nat \<Rightarrow> transport_result)
     \<Rightarrow> AINativeClient \<Rightarrow> string \<Rightarrow> string \<Rightarrow> jdict option \<Rightarrow> jdict option
     \<Rightarrow> (string \<times> string) list \<Rightarrow> (exn + jdict) \<times> event list" where
  "request hmac_sha256 b64encode now transport self method endpoint data params custom =
     (case request_headers hmac_sha256 b64encode now self custom of
        Inl e \<Rightarrow> (Inl e, [])
      | Inr hs \<Rightarrow>
          attempt_loop (retry_delay (config self)) transport
            \<lparr> call_method = method, call_url = endpoint, call_json = data,
              call_params = params, call_headers = hs \<rparr>
            0 (max_retries (config self)))"

text \<open>The attempts and the sleeps of a trace, and a trace that alternates between them.\<close>

definition attempts :: "event list \<Rightarrow> http_call list" where
  "attempts evs = concat (map (\<lambda>e. case e of Attempt c \<Rightarrow> [c] | Sleep _ \<Rightarrow> []) evs)"

definition sleeps :: "event list \<Rightarrow> real list" where
  "sleeps evs = concat (map (\<lambda>e. case e of Attempt _ \<Rightarrow> [] | Sleep d \<Rightarrow> [d]) evs)"

fun alternating :: "event list \<Rightarrow> bool" where
  "alternating [] = True"
| "alternating [Attempt _] = True"
| "alternating (Attempt _ # Sleep _ # evs) = (evs \<noteq> [] \<and> alternating evs)"
| "alternating _ = False"

text \<open>Concrete clients, responses and transports, after the fixtures of the unit tests, and
  stand-ins for the two library functions.\<close>

definition demo_client :: AINativeClient where
  "demo_client =
     \<lparr> auth_config = \<lparr> api_key = Some ''test-api-key-12345'',
                       api_secret = Some ''test-api-secret-67890'' \<rparr>,
       config = default_config,
       organization_id = None \<rparr>"

definition org_client :: AINativeClient where
  "org_client = demo_client \<lparr> organization_id := Some ''org_456'' \<rparr>"

definition keyless_client :: AINativeClient where
  "keyless_client = demo_client \<lparr> auth_config := \<lparr> api_key = None, api_secret = None \<rparr> \<rparr>"

definition demo_hmac :: "string \<Rightarrow> string \<Rightarrow> string" where
  "demo_hmac k m = ''hmac('' @ k @ '','' @ m @ '')''"

definition demo_b64 :: "string \<Rightarrow> string" where
  "demo_b64 s = ''b64('' @ s @ '')''"

definition always_failing :: "nat \<Rightarrow> transport_result" where
  "always_failing i = ConnectionFailed"

definition always_returning :: "response \<Rightarrow> nat \<Rightarrow> transport_result" where
  "always_returning r i = Returned r"

definition failing_twice_then :: "response \<Rightarrow> nat \<Rightarrow> transport_result" where
  "failing_twice_then r i = (if i < 2 then ConnectionFailed else Returned r)"

definition ok_response :: response where
  "ok_response =
     \<lparr> status_code = 200, response_text = ''{\"success\": true}'',
       json_value = [(''success'', JBool True)], headers = [] \<rparr>"

definition error_response :: "int \<Rightarrow> string \<Rightarrow> (string \<times> string) list \<Rightarrow> response" where
  "error_response sc body hs =
     \<lparr> status_code = sc, response_text = body, json_value = [], headers = hs \<rparr>"

section \<open>Properties of the agent swarm module\<close>

lemmas method_defs =
  start_swarm_def orchestrate_def get_status_def get_metrics_def get_agent_types_def
  configure_agent_def set_agent_prompt_def stop_swarm_def pause_swarm_def resume_swarm_def
  get_swarm_history_def get_agent_communications_def create_agent_def

lemmas outcome_defs =
  dispatch_def unwrap_def effect_def self_after_def sent_def returned_def body_of_def

lemma invoke_self: "fst (invoke self m) = self"
  by (cases m) (simp_all add: method_defs outcome_defs Let_def)

lemma after_calls_self: "after_calls self ms = self"
  by (induction ms) (simp_all add: invoke_self)

lemma invoke_sent_base_path:
  "base_path s1 = base_path s2 \<Longrightarrow> snd (invoke s1 m) = snd (invoke s2 m)"
  by (cases m) (simp_all add: method_defs outcome_defs Let_def)

text \<open>
  C6. No resource method changes the swarm client: after the call its parent reference
  and its base path are what they were. The call a method dispatches to the parent
  (convenience method, endpoint path, body or query parameters) depends on the method's
  arguments alone: the same method with the same arguments dispatches the same call,
  whatever the parent client is and does, and whatever was called before.
\<close>

theorem resource_methods_frame:
  "fst (invoke self m) = self
   \<and> client (fst (invoke self m)) = client self
   \<and> base_path (fst (invoke self m)) = base_path self
   \<and> snd (invoke (after_calls (AgentSwarmClient_init c1) ms1) m)
       = snd (invoke (after_calls (AgentSwarmClient_init c2) ms2) m)"
proof -
  have "base_path (after_calls (AgentSwarmClient_init c1) ms1)
        = base_path (after_calls (AgentSwarmClient_init c2) ms2)"
    by (simp add: after_calls_self AgentSwarmClient_init_def)
  then have "snd (invoke (after_calls (AgentSwarmClient_init c1) ms1) m)
       = snd (invoke (after_calls (AgentSwarmClient_init c2) ms2) m)"
    by (rule invoke_sent_base_path)
  then show ?thesis
    by (simp add: invoke_self)
qed

lemma returned_unwrap:
  "returned (unwrap key (dispatch self c)) =
     (case client self c of Inl e \<Rightarrow> Inl e | Inr r \<Rightarrow> Inr (dict_get r key (JList [])))"
  by (simp add: outcome_defs)

lemma sent_unwrap: "sent (unwrap key (dispatch self c)) = c"
  by (simp add: outcome_defs)

lemma dict_get_present: "map_of d k = Some v \<Longrightarrow> dict_get d k dflt = v"
  by (simp add: dict_get_def)

lemma dict_get_absent: "k \<notin> set (dict_keys d) \<Longrightarrow> dict_get d k dflt = dflt"
  by (simp add: dict_get_def dict_keys_def map_of_eq_None_iff[THEN iffD2])

lemma unwrap_cases:
  assumes "client self (sent (unwrap key (dispatch self c))) = Inr r"
  shows "(map_of r key = Some v \<longrightarrow> returned (unwrap key (dispatch self c)) = Inr v)
       \<and> (key \<notin> set (dict_keys r) \<longrightarrow> returned (unwrap key (dispatch self c)) = Inr (JList []))"
  using assms by (simp add: sent_unwrap returned_unwrap dict_get_present dict_get_absent)

text \<open>
  C7. Whatever dictionary the parent client returns for the call, \<open>get_agent_types\<close>
  returns the value stored under \<open>"agent_types"\<close>, \<open>get_swarm_history\<close> the
  value under \<open>"history"\<close> and \<open>get_agent_communications\<close> the value under
  \<open>"communications"\<close>; each returns the empty list when its key is absent.
\<close>

theorem envelope_unwrapping:
  "(client self (sent (get_agent_types self)) = Inr r \<longrightarrow>
      (map_of r ''agent_types'' = Some v \<longrightarrow> returned (get_agent_types self) = Inr v)
    \<and> (''agent_types'' \<notin> set (dict_keys r) \<longrightarrow>
         returned (get_agent_types self) = Inr (JList [])))
 \<and> (client self (sent (get_swarm_history self swarm_id limit)) = Inr r \<longrightarrow>
      (map_of r ''history'' = Some v \<longrightarrow>
         returned (get_swarm_history self swarm_id limit) = Inr v)
    \<and> (''history'' \<notin> set (dict_keys r) \<longrightarrow>
         returned (get_swarm_history self swarm_id limit) = Inr (JList [])))
 \<and> (client self (sent (get_agent_communications self swarm_id agent_id)) = Inr r \<longrightarrow>
      (map_of r ''communications'' = Some v \<longrightarrow>
         returned (get_agent_communications self swarm_id agent_id) = Inr v)
    \<and> (''communications'' \<notin> set (dict_keys r) \<longrightarrow>
         returned (get_agent_communications self swarm_id agent_id) = Inr (JList [])))"
  unfolding get_agent_types_def get_swarm_history_def get_agent_communications_def Let_def
  using unwrap_cases by blast

theorem envelope_unwrapping_witness:
  "returned (get_agent_types (AgentSwarmClient_init
      (answering [(''agent_types'', JList [JStr ''coder''])])))
     = Inr (JList [JStr ''coder''])
   \<and> returned (get_swarm_history (AgentSwarmClient_init
      (answering [(''agent_types'', JList [JStr ''coder''])])) ''swarm_1'' 100)
     = Inr (JList [])
   \<and> returned (get_agent_communications (AgentSwarmClient_init
      (answering [(''communications'', JNull)])) ''swarm_1'' None)
     = Inr JNull"
  using envelope_unwrapping [of "AgentSwarmClient_init
          (answering [(''agent_types'', JList [JStr ''coder''])])"
          "[(''agent_types'', JList [JStr ''coder''])]" "JList [JStr ''coder'']" "''swarm_1''" 100 None]
        envelope_unwrapping [of "AgentSwarmClient_init
          (answering [(''communications'', JNull)])"
          "[(''communications'', JNull)]" JNull "''swarm_1''" 100 None]
  by (simp add: AgentSwarmClient_init_def dict_keys_def answering_def)

lemma body_of_dispatch: "body_of (dispatch self c) = (case call_payload c of None \<Rightarrow> [] | Some d \<Rightarrow> d)"
  by (simp add: outcome_defs)

lemma sent_dispatch: "sent (dispatch self c) = c"
  by (simp add: outcome_defs)

lemma truthy_simps:
  "truthy None = False" "truthy (Some []) = False" "truthy (Some (x # xs)) = True"
  by (simp_all add: truthy_def)

lemma or_empty_falsy: "\<not> truthy x \<Longrightarrow> or_empty x = []"
  by (simp add: or_empty_def)

text \<open>
  C8. In \<open>orchestrate\<close>, \<open>get_metrics\<close> and \<open>set_agent_prompt\<close> the key of an
  optional argument is in the body or the query parameters exactly when the argument is
  truthy, and then carries the argument; a falsy argument (\<open>None\<close>, empty string,
  empty list, empty dictionary) dispatches the call that \<open>None\<close> dispatches. With
  \<open>agents=[]\<close> the body of \<open>orchestrate\<close> has the keys \<open>swarm_id\<close>, \<open>task\<close>
  and \<open>context\<close> only, and \<open>get_metrics\<close> with both filters \<open>None\<close> passes
  empty query parameters.
\<close>

theorem optional_arguments_truthy:
  "(''agents'' \<in> set (dict_keys (body_of (orchestrate self swarm_id task context agents)))
      \<longleftrightarrow> truthy agents)
 \<and> (truthy agents \<longrightarrow>
      map_of (body_of (orchestrate self swarm_id task context agents)) ''agents''
        = Some (JList (map JStr (the agents))))
 \<and> (\<not> truthy agents \<longrightarrow>
      sent (orchestrate self swarm_id task context agents)
        = sent (orchestrate self swarm_id task context None))
 \<and> (\<not> truthy context \<longrightarrow>
      sent (orchestrate self swarm_id task context agents)
        = sent (orchestrate self swarm_id task None agents))
 \<and> dict_keys (body_of (orchestrate self swarm_id task context (Some [])))
      = [''swarm_id'', ''task'', ''context'']
 \<and> (''swarm_id'' \<in> set (dict_keys (body_of (get_metrics self sid pid))) \<longleftrightarrow> truthy sid)
 \<and> (''project_id'' \<in> set (dict_keys (body_of (get_metrics self sid pid))) \<longleftrightarrow> truthy pid)
 \<and> (truthy sid \<longrightarrow>
      map_of (body_of (get_metrics self sid pid)) ''swarm_id'' = Some (JStr (the sid)))
 \<and> (truthy pid \<longrightarrow>
      map_of (body_of (get_metrics self sid pid)) ''project_id'' = Some (JStr (the pid)))
 \<and> (\<not> truthy sid \<longrightarrow> sent (get_metrics self sid pid) = sent (get_metrics self None pid))
 \<and> (\<not> truthy pid \<longrightarrow> sent (get_metrics self sid pid) = sent (get_metrics self sid None))
 \<and> call_payload (sent (get_metrics self None None)) = Some []
 \<and> (''system_prompt'' \<in> set (dict_keys (body_of
        (set_agent_prompt self swarm_id agent_id prompt system_prompt)))
      \<longleftrightarrow> truthy system_prompt)
 \<and> (truthy system_prompt \<longrightarrow>
      map_of (body_of (set_agent_prompt self swarm_id agent_id prompt system_prompt))
        ''system_prompt'' = Some (JStr (the system_prompt)))
 \<and> (\<not> truthy system_prompt \<longrightarrow>
      sent (set_agent_prompt self swarm_id agent_id prompt system_prompt)
        = sent (set_agent_prompt self swarm_id agent_id prompt None))"
  by (simp add: orchestrate_def get_metrics_def set_agent_prompt_def Let_def
        body_of_dispatch sent_dispatch dict_keys_def truthy_simps or_empty_falsy)

theorem optional_arguments_truthy_witness:
  "dict_keys (body_of (orchestrate (AgentSwarmClient_init (answering []))
      ''swarm_1'' ''review'' (Some []) (Some [''coder_1''])))
     = [''swarm_id'', ''task'', ''context'', ''agents'']
   \<and> sent (orchestrate (AgentSwarmClient_init (answering []))
      ''swarm_1'' ''review'' (Some []) (Some []))
     = Post ''/agent-swarm/orchestrate''
         (Some [(''swarm_id'', JStr ''swarm_1''), (''task'', JStr ''review''), (''context'', JObj [])])
   \<and> sent (get_metrics (AgentSwarmClient_init (answering [])) (Some '''') (Some ''proj_1''))
     = Get ''/agent-swarm/metrics'' (Some [(''project_id'', JStr ''proj_1'')])
   \<and> sent (set_agent_prompt (AgentSwarmClient_init (answering []))
      ''swarm_1'' ''coder_1'' ''write code'' (Some ''''))
     = Post ''/agent-swarm/swarm_1/agents/coder_1/prompt'' (Some [(''prompt'', JStr ''write code'')])"
  using optional_arguments_truthy [of "AgentSwarmClient_init (answering [])"
          "''swarm_1''" "''review''" "Some []" "Some [''coder_1'']" "Some ''''" "Some ''proj_1''"
          "''coder_1''" "''write code''" "Some ''''"]
        optional_arguments_truthy [of "AgentSwarmClient_init (answering [])"
          "''swarm_1''" "''review''" "Some []" "Some []" "Some ''''" "Some ''proj_1''"
          "''coder_1''" "''write code''" "Some ''''"]
  by (simp add: orchestrate_def get_metrics_def set_agent_prompt_def Let_def
        body_of_dispatch sent_dispatch dict_keys_def truthy_simps or_empty_def
        AgentSwarmClient_init_def)

text \<open>
  C9. The body of \<open>start_swarm\<close> always has the keys \<open>project_id\<close>, \<open>agents\<close>,
  \<open>objective\<close> and \<open>config\<close>, the body of \<open>create_agent\<close> the keys \<open>name\<close>,
  \<open>type\<close>, \<open>capabilities\<close>, \<open>prompt\<close> and \<open>config\<close>; with \<open>config=None\<close>
  the \<open>config\<close> field is the empty object, and \<open>orchestrate\<close> with
  \<open>context=None\<close> sends \<open>context\<close> as the empty object.
\<close>

theorem bodies_always_complete:
  "dict_keys (body_of (start_swarm self project_id agents objective cfg))
     = [''project_id'', ''agents'', ''objective'', ''config'']
 \<and> map_of (body_of (start_swarm self project_id agents objective None)) ''config''
     = Some (JObj [])
 \<and> dict_keys (body_of (create_agent self name agent_type capabilities prompt cfg))
     = [''name'', ''type'', ''capabilities'', ''prompt'', ''config'']
 \<and> map_of (body_of (create_agent self name agent_type capabilities prompt None)) ''config''
     = Some (JObj [])
 \<and> map_of (body_of (orchestrate self swarm_id task None ags)) ''context'' = Some (JObj [])"
  by (simp add: start_swarm_def create_agent_def orchestrate_def Let_def
        body_of_dispatch dict_keys_def truthy_simps or_empty_falsy)

text \<open>
  C10. The \<open>type\<close> field of the body of \<open>create_agent\<close> is the value of the
  \<open>AgentType\<close> member passed, hence one of the eight strings of the enumeration.
\<close>

theorem create_agent_type_field:
  "map_of (body_of (create_agent self name agent_type capabilities prompt cfg)) ''type''
     = Some (JStr (AgentType_value agent_type))
 \<and> AgentType_value agent_type \<in> set [''researcher'', ''coder'', ''reviewer'', ''tester'',
       ''documenter'', ''analyst'', ''designer'', ''orchestrator'']"
proof
  show "map_of (body_of (create_agent self name agent_type capabilities prompt cfg)) ''type''
     = Some (JStr (AgentType_value agent_type))"
    by (simp add: create_agent_def Let_def body_of_dispatch)
  show "AgentType_value agent_type \<in> set [''researcher'', ''coder'', ''reviewer'', ''tester'',
       ''documenter'', ''analyst'', ''designer'', ''orchestrator'']"
    by (cases agent_type) simp_all
qed

section \<open>Properties of the client\<close>

lemma attempt_loop_returned:
  "transport a = Returned r \<Longrightarrow>
     attempt_loop d transport c a (Suc left) = (handle_response r, [Attempt c])"
  by (simp add: attempt_loop.simps(2))

lemma attempt_loop_transient:
  "transient (transport a) \<Longrightarrow>
     attempt_loop d transport c a (Suc left) =
       (if left = 0 then (Inl raise_NetworkError, [Attempt c])
        else (fst (attempt_loop d transport c (Suc a) left),
              Attempt c # Sleep (d * real (Suc a)) # snd (attempt_loop d transport c (Suc a) left)))"
  by (cases "transport a") (simp_all add: attempt_loop.simps(2) case_prod_unfold)

lemma attempts_simps:
  "attempts [] = []"
  "attempts (Attempt c # evs) = c # attempts evs"
  "attempts (Sleep x # evs) = attempts evs"
  by (simp_all add: attempts_def)

lemma sleeps_simps:
  "sleeps [] = []"
  "sleeps (Attempt c # evs) = sleeps evs"
  "sleeps (Sleep x # evs) = x # sleeps evs"
  by (simp_all add: sleeps_def)

lemma attempt_loop_nonempty: "snd (attempt_loop d transport c a (Suc left)) \<noteq> []"
  by (cases "transport a") (simp_all add: attempt_loop.simps(2) case_prod_unfold)

lemma attempt_loop_alternating: "alternating (snd (attempt_loop d transport c a n))"
proof (induction n arbitrary: a)
  case 0
  show ?case by simp
next
  case (Suc left)
  show ?case
  proof (cases "transient (transport a)")
    case False
    then obtain r where "transport a = Returned r"
      by (cases "transport a") simp_all
    then show ?thesis by (simp add: attempt_loop_returned)
  next
    case True
    show ?thesis
    proof (cases left)
      case 0
      with True show ?thesis by (simp add: attempt_loop_transient)
    next
      case (Suc m)
      with True Suc.IH [of "Suc a"] attempt_loop_nonempty [of d transport c "Suc a" m]
      show ?thesis by (simp add: attempt_loop_transient)
    qed
  qed
qed

lemma attempt_loop_attempts:
  "attempts (snd (attempt_loop d transport c a n))
     = replicate (length (attempts (snd (attempt_loop d transport c a n)))) c"
proof (induction n arbitrary: a)
  case 0
  show ?case by (simp add: attempts_simps)
next
  case (Suc left)
  show ?case
  proof (cases "transient (transport a)")
    case False
    then obtain r where "transport a = Returned r"
      by (cases "transport a") simp_all
    then show ?thesis by (simp add: attempt_loop_returned attempts_simps)
  next
    case True
    with Suc.IH [of "Suc a"] show ?thesis
      by (simp add: attempt_loop_transient attempts_simps)
  qed
qed

lemma attempt_loop_all_transient:
  "(\<forall>k. a \<le> k \<and> k < a + n \<longrightarrow> transient (transport k)) \<Longrightarrow>
     fst (attempt_loop d transport c a n) = Inl raise_NetworkError
   \<and> length (attempts (snd (attempt_loop d transport c a n))) = n
   \<and> length (sleeps (snd (attempt_loop d transport c a n))) = n - 1"
proof (induction n arbitrary: a)
  case 0
  show ?case by (simp add: attempts_simps sleeps_simps)
next
  case (Suc left)
  then have now: "transient (transport a)"
    by simp
  have "\<forall>k. Suc a \<le> k \<and> k < Suc a + left \<longrightarrow> transient (transport k)"
    using Suc.prems by simp
  then have IH: "fst (attempt_loop d transport c (Suc a) left) = Inl raise_NetworkError
     \<and> length (attempts (snd (attempt_loop d transport c (Suc a) left))) = left
     \<and> length (sleeps (snd (attempt_loop d transport c (Suc a) left))) = left - 1"
    by (rule Suc.IH)
  show ?case
  proof (cases "left = 0")
    case True
    with now show ?thesis
      by (simp add: attempt_loop_transient attempts_simps sleeps_simps)
  next
    case False
    with now IH show ?thesis
      by (simp add: attempt_loop_transient attempts_simps sleeps_simps)
  qed
qed

lemma attempt_loop_success_after:
  "k < n \<Longrightarrow> (\<forall>j<k. transient (transport (a + j))) \<Longrightarrow> transport (a + k) = Returned r \<Longrightarrow>
     fst (attempt_loop d transport c a n) = handle_response r
   \<and> length (attempts (snd (attempt_loop d transport c a n))) = Suc k
   \<and> length (sleeps (snd (attempt_loop d transport c a n))) = k"
proof (induction k arbitrary: a n)
  case 0
  then obtain left where "n = Suc left"
    by (cases n) simp_all
  with 0 show ?case
    by (simp add: attempt_loop_returned attempts_simps sleeps_simps)
next
  case (Suc k)
  then obtain left where n: "n = Suc left" and left: "k < left"
    by (cases n) simp_all
  have now: "transient (transport a)"
    using Suc.prems(2) by (metis add.right_neutral zero_less_Suc)
  have "\<forall>j<k. transient (transport (Suc a + j))"
    using Suc.prems(2) by (metis Suc_less_eq add_Suc_shift)
  moreover have "transport (Suc a + k) = Returned r"
    using Suc.prems(3) by simp
  ultimately have IH:
    "fst (attempt_loop d transport c (Suc a) left) = handle_response r
     \<and> length (attempts (snd (attempt_loop d transport c (Suc a) left))) = Suc k
     \<and> length (sleeps (snd (attempt_loop d transport c (Suc a) left))) = k"
    using left Suc.IH by blast
  from left have "left \<noteq> 0" by simp
  with now IH show ?case
    unfolding n
    by (simp add: attempt_loop_transient attempts_simps sleeps_simps)
qed

lemma map_of_dict_set: "map_of (dict_set k v d) k' = (if k' = k then Some v else map_of d k')"
  by (induction d) auto

lemma in_dict_keys: "k \<in> set (dict_keys d) \<longleftrightarrow> map_of d k \<noteq> None"
  by (simp add: dict_keys_def map_of_eq_None_iff)

lemma map_of_merge_headers:
  "map_of (merge_headers hs custom) k =
     (case map_of hs k of Some v \<Rightarrow> Some v | None \<Rightarrow> map_of custom k)"
proof (induction custom arbitrary: hs)
  case Nil
  show ?case by (simp split: option.split)
next
  case (Cons kv custom)
  obtain k' v' where kv: "kv = (k', v')" by (cases kv)
  show ?case
    unfolding kv
    by (auto simp: Cons.IH in_dict_keys map_of_dict_set split: option.split)
qed

lemma get_headers_configured:
  "truthy (api_key cfg) \<Longrightarrow> \<exists>hs. get_headers H B now cfg = Inr hs"
  by (simp add: get_headers_def Let_def)

lemma get_headers_unconfigured:
  "\<not> truthy (api_key cfg) \<Longrightarrow> get_headers H B now cfg = Inl raise_ValueError"
  by (simp add: get_headers_def)

lemma request_headers_configured:
  "truthy (api_key (auth_config self)) \<Longrightarrow> \<exists>hs. request_headers H B now self custom = Inr hs"
  using get_headers_configured [of "auth_config self" H B now]
  by (auto simp: request_headers_def Let_def)

lemma request_configured:
  assumes "truthy (api_key (auth_config self))"
  obtains hs where "request_headers H B now self custom = Inr hs"
    and "request H B now transport self m ep data params custom =
           attempt_loop (retry_delay (config self)) transport
             \<lparr> call_method = m, call_url = ep, call_json = data,
               call_params = params, call_headers = hs \<rparr>
             0 (max_retries (config self))"
proof -
  from assms obtain hs where "request_headers H B now self custom = Inr hs"
    using request_headers_configured by blast
  then show ?thesis
    using that by (simp add: request_def)
qed

text \<open>
  C1. For a client with an API key: when every underlying attempt fails with a connection
  error or a timeout, the request makes exactly \<open>max_retries\<close> attempts (3 with the
  default configuration), sleeps between consecutive attempts (one sleep fewer than
  attempts) and raises \<open>NetworkError\<close>; when attempt \<open>k\<close> (counted from 0) is the
  first not to fail and answers with a success status, the request returns that
  response's parsed JSON after \<open>k + 1\<close> attempts and makes no further attempt.
\<close>

theorem request_retry_bound:
  assumes "truthy (api_key (auth_config self))"
  shows "max_retries default_config = 3
   \<and> ((\<forall>i < max_retries (config self). transient (transport i)) \<longrightarrow>
        fst (request H B now transport self m ep data params custom) = Inl raise_NetworkError
      \<and> exn_class raise_NetworkError = NetworkError
      \<and> length (attempts (snd (request H B now transport self m ep data params custom)))
          = max_retries (config self)
      \<and> length (sleeps (snd (request H B now transport self m ep data params custom)))
          = max_retries (config self) - 1
      \<and> alternating (snd (request H B now transport self m ep data params custom)))
   \<and> (k < max_retries (config self) \<and> (\<forall>j<k. transient (transport j))
        \<and> transport k = Returned r \<and> is_success (status_code r) \<longrightarrow>
        fst (request H B now transport self m ep data params custom) = Inr (parsed_json r)
      \<and> length (attempts (snd (request H B now transport self m ep data params custom)))
          = Suc k
      \<and> length (sleeps (snd (request H B now transport self m ep data params custom))) = k
      \<and> alternating (snd (request H B now transport self m ep data params custom)))"
proof -
  from assms obtain hs where
    req: "request H B now transport self m ep data params custom =
           attempt_loop (retry_delay (config self)) transport
             \<lparr> call_method = m, call_url = ep, call_json = data,
               call_params = params, call_headers = hs \<rparr>
             0 (max_retries (config self))"
    by (rule request_configured)
  have alt: "alternating (snd (request H B now transport self m ep data params custom))"
    unfolding req by (rule attempt_loop_alternating)
  have dflt: "max_retries default_config = 3"
    by (simp add: default_config_def)
  have cls: "exn_class raise_NetworkError = NetworkError"
    by (simp add: raise_NetworkError_def)
  have fail: "fst (request H B now transport self m ep data params custom) = Inl raise_NetworkError
      \<and> length (attempts (snd (request H B now transport self m ep data params custom)))
          = max_retries (config self)
      \<and> length (sleeps (snd (request H B now transport self m ep data params custom)))
          = max_retries (config self) - 1"
    if "\<forall>i < max_retries (config self). transient (transport i)"
    unfolding req using that by (intro attempt_loop_all_transient) simp
  have ok: "fst (request H B now transport self m ep data params custom) = Inr (parsed_json r)
      \<and> length (attempts (snd (request H B now transport self m ep data params custom)))
          = Suc k
      \<and> length (sleeps (snd (request H B now transport self m ep data params custom))) = k"
    if "k < max_retries (config self)" "\<forall>j<k. transient (transport j)"
       "transport k = Returned r" "is_success (status_code r)"
  proof -
    have "handle_response r = Inr (parsed_json r)"
      using that(4) by (simp add: handle_response_def is_success_def)
    moreover have "fst (attempt_loop (retry_delay (config self)) transport
             \<lparr> call_method = m, call_url = ep, call_json = data,
               call_params = params, call_headers = hs \<rparr>
             0 (max_retries (config self))) = handle_response r
      \<and> length (attempts (snd (attempt_loop (retry_delay (config self)) transport
             \<lparr> call_method = m, call_url = ep, call_json = data,
               call_params = params, call_headers = hs \<rparr>
             0 (max_retries (config self))))) = Suc k
      \<and> length (sleeps (snd (attempt_loop (retry_delay (config self)) transport
             \<lparr> call_method = m, call_url = ep, call_json = data,
               call_params = params, call_headers = hs \<rparr>
             0 (max_retries (config self))))) = k"
      using that(1,2,3) by (intro attempt_loop_success_after) simp_all
    ultimately show ?thesis
      unfolding req by simp
  qed
  from alt dflt cls fail ok show ?thesis
    by blast
qed

theorem request_retry_bound_witness:
  "fst (request demo_hmac demo_b64 1704067200 always_failing demo_client
          ''GET'' ''/test'' None None []) = Inl raise_NetworkError
   \<and> length (attempts (snd (request demo_hmac demo_b64 1704067200 always_failing
          demo_client ''GET'' ''/test'' None None []))) = 3
   \<and> length (sleeps (snd (request demo_hmac demo_b64 1704067200 always_failing
          demo_client ''GET'' ''/test'' None None []))) = 2
   \<and> fst (request demo_hmac demo_b64 1704067200
          (failing_twice_then ok_response) demo_client
          ''GET'' ''/test'' None None []) = Inr [(''success'', JBool True)]
   \<and> length (attempts (snd (request demo_hmac demo_b64 1704067200
          (failing_twice_then ok_response) demo_client
          ''GET'' ''/test'' None None []))) = 3"
  using request_retry_bound [of demo_client always_failing demo_hmac demo_b64
          1704067200 "''GET''" "''/test''" None None "[]" 0 ok_response]
        request_retry_bound [of demo_client "failing_twice_then ok_response"
          demo_hmac demo_b64 1704067200 "''GET''" "''/test''" None None "[]" 2 ok_response]
  by (simp add: demo_client_def default_config_def ok_response_def truthy_def is_success_def
        parsed_json_def always_failing_def failing_twice_then_def)

lemma request_first_response:
  assumes "truthy (api_key (auth_config self))"
    and "k < max_retries (config self)" and "\<forall>j<k. transient (transport j)"
    and "transport k = Returned r"
  shows "fst (request H B now transport self m ep data params custom) = handle_response r"
proof -
  from assms(1) obtain hs where
    req: "request H B now transport self m ep data params custom =
           attempt_loop (retry_delay (config self)) transport
             \<lparr> call_method = m, call_url = ep, call_json = data,
               call_params = params, call_headers = hs \<rparr>
             0 (max_retries (config self))"
    by (rule request_configured)
  have "fst (attempt_loop (retry_delay (config self)) transport
             \<lparr> call_method = m, call_url = ep, call_json = data,
               call_params = params, call_headers = hs \<rparr>
             0 (max_retries (config self))) = handle_response r
      \<and> length (attempts (snd (attempt_loop (retry_delay (config self)) transport
             \<lparr> call_method = m, call_url = ep, call_json = data,
               call_params = params, call_headers = hs \<rparr>
             0 (max_retries (config self))))) = Suc k
      \<and> length (sleeps (snd (attempt_loop (retry_delay (config self)) transport
             \<lparr> call_method = m, call_url = ep, call_json = data,
               call_params = params, call_headers = hs \<rparr>
             0 (max_retries (config self))))) = k"
    using assms(2,3,4) by (intro attempt_loop_success_after) simp_all
  then show ?thesis
    unfolding req by simp
qed

text \<open>
  C2. When a request of a client with an API key gets a response (after any transient
  failures, within the retry limit), the status decides the exception: 401 raises
  \<open>AuthenticationError\<close>; 429 raises \<open>RateLimitError\<close> whose \<open>retry_after\<close> is the
  integer the \<open>Retry-After\<close> header spells; any other status outside 200..299 raises
  \<open>APIError\<close> with the status code and the response body. The three classes are
  subclasses of \<open>AINativeException\<close>, and their error codes differ from each other
  and from the base class's.
\<close>

theorem status_to_exception:
  assumes "truthy (api_key (auth_config self))"
    and "k < max_retries (config self)" and "\<forall>j<k. transient (transport j)"
    and "transport k = Returned r"
  shows "(status_code r = 401 \<longrightarrow>
            fst (request H B now transport self m ep data params custom)
              = Inl raise_AuthenticationError)
    \<and> (status_code r = 429 \<and> map_of (headers r) ''Retry-After'' = Some s
          \<and> int_of_decimal s = Some n \<longrightarrow>
            fst (request H B now transport self m ep data params custom)
              = Inl (raise_RateLimitError (Some n)))
    \<and> (status_code r = 429 \<longrightarrow>
          (\<exists>ra. fst (request H B now transport self m ep data params custom)
              = Inl (raise_RateLimitError ra)))
    \<and> (\<not> is_success (status_code r) \<and> status_code r \<noteq> 401 \<and> status_code r \<noteq> 429 \<longrightarrow>
            fst (request H B now transport self m ep data params custom)
              = Inl (raise_APIError (status_code r) (response_text r)))
    \<and> exn_class raise_AuthenticationError = AuthenticationError
    \<and> exn_class (raise_RateLimitError ra') = RateLimitError
    \<and> exn_retry_after (raise_RateLimitError ra') = ra'
    \<and> exn_class (raise_APIError sc body) = APIError
    \<and> exn_status_code (raise_APIError sc body) = Some sc
    \<and> exn_response_body (raise_APIError sc body) = Some body
    \<and> issubclass AuthenticationError AINativeException
    \<and> issubclass RateLimitError AINativeException
    \<and> issubclass APIError AINativeException
    \<and> distinct (map error_code [AINativeException, AuthenticationError, RateLimitError, APIError])"
proof -
  have req: "fst (request H B now transport self m ep data params custom) = handle_response r"
    using assms by (rule request_first_response)
  show ?thesis
    unfolding req
    by (simp add: handle_response_def raise_AuthenticationError_def raise_RateLimitError_def
          raise_APIError_def issubclass_def)
qed

theorem status_to_exception_witness:
  "fst (request demo_hmac demo_b64 1704067200
          (always_returning (error_response 401 ''Unauthorized'' [])) demo_client
          ''GET'' ''/test'' None None []) = Inl raise_AuthenticationError
   \<and> fst (request demo_hmac demo_b64 1704067200
          (always_returning (error_response 429 '''' [(''Retry-After'', ''60'')])) demo_client
          ''GET'' ''/test'' None None []) = Inl (raise_RateLimitError (Some 60))
   \<and> fst (request demo_hmac demo_b64 1704067200
          (always_returning (error_response 500 ''Internal Server Error'' [])) demo_client
          ''GET'' ''/test'' None None [])
       = Inl (raise_APIError 500 ''Internal Server Error'')"
  using status_to_exception [of demo_client 0 "always_returning (error_response 401 ''Unauthorized'' [])"
          "error_response 401 ''Unauthorized'' []" demo_hmac demo_b64 1704067200
          "''GET''" "''/test''" None None "[]" "''60''" 60]
        status_to_exception [of demo_client 0
          "always_returning (error_response 429 '''' [(''Retry-After'', ''60'')])"
          "error_response 429 '''' [(''Retry-After'', ''60'')]" demo_hmac demo_b64 1704067200
          "''GET''" "''/test''" None None "[]" "''60''" 60]
        status_to_exception [of demo_client 0
          "always_returning (error_response 500 ''Internal Server Error'' [])"
          "error_response 500 ''Internal Server Error'' []" demo_hmac demo_b64 1704067200
          "''GET''" "''/test''" None None "[]" "''60''" 60]
  by (simp add: demo_client_def default_config_def error_response_def truthy_def is_success_def
        int_of_decimal_def is_digit_def always_returning_def)

lemma digit_char:
  assumes "d < 10"
  shows "is_digit (''0123456789'' ! d) \<and> of_char (''0123456789'' ! d) - 48 = int d"
proof -
  from assms have "d = 0 \<or> d = 1 \<or> d = 2 \<or> d = 3 \<or> d = 4 \<or> d = 5 \<or> d = 6 \<or> d = 7
      \<or> d = 8 \<or> d = 9"
    by arith
  then show ?thesis
    by (elim disjE) (simp_all add: is_digit_def)
qed

lemma decimal_value:
  "decimal n \<noteq> [] \<and> list_all is_digit (decimal n)
   \<and> foldl (\<lambda>a c. 10 * a + (of_char c - 48)) 0 (decimal n) = int n"
proof (induction n rule: decimal.induct)
  case (1 n)
  show ?case
  proof (cases "n < 10")
    case True
    with digit_char [of n] show ?thesis
      by (simp add: decimal.simps [of n])
  next
    case False
    have "n mod 10 < 10" by simp
    moreover have "10 * int (n div 10) + int (n mod 10) = int n"
      by presburger
    ultimately show ?thesis
      using False "1.IH" digit_char [of "n mod 10"]
      by (simp add: decimal.simps [of n])
  qed
qed

lemma decimal_digits: "int_of_decimal (decimal n) = Some (int n)"
  using decimal_value [of n] by (simp add: int_of_decimal_def)

text \<open>
  C3. With an API key and an API secret set, the headers contain \<open>X-Timestamp\<close>, the
  decimal numeral of the current Unix time, and \<open>X-Signature\<close>, the base64 encoding of
  the HMAC-SHA256 digest, keyed by the secret, of the API key followed by that timestamp.
  Without a secret neither header is present.
\<close>

theorem signature_headers:
  "(truthy (api_key cfg) \<and> truthy (api_secret cfg) \<longrightarrow>
      (\<exists>hs. get_headers hmac_sha256 b64encode now cfg = Inr hs
         \<and> map_of hs ''X-Timestamp'' = Some (decimal now)
         \<and> map_of hs ''X-Signature''
             = Some (b64encode (hmac_sha256 (the (api_secret cfg))
                                  (the (api_key cfg) @ decimal now)))))
 \<and> int_of_decimal (decimal now) = Some (int now)
 \<and> (\<not> truthy (api_secret cfg) \<and> get_headers hmac_sha256 b64encode now cfg = Inr hs' \<longrightarrow>
      ''X-Timestamp'' \<notin> set (dict_keys hs') \<and> ''X-Signature'' \<notin> set (dict_keys hs'))
 \<and> (truthy (api_key cfg) \<and> \<not> truthy (api_secret cfg) \<longrightarrow>
      (\<exists>hs. get_headers hmac_sha256 b64encode now cfg = Inr hs))"
  by (auto simp: get_headers_def Let_def generate_signature_def map_of_dict_set dict_keys_def
        decimal_digits)

theorem signature_headers_witness:
  "get_headers demo_hmac demo_b64
        1704067200 (auth_config demo_client)
       = Inr [(''X-API-Key'', ''test-api-key-12345''), (''X-SDK-Version'', ''0.1.0''),
              (''X-SDK-Language'', ''Python''), (''X-Timestamp'', ''1704067200''),
              (''X-Signature'',
               ''b64(hmac(test-api-secret-67890,test-api-key-123451704067200))'')]
   \<and> get_headers demo_hmac demo_b64
        1704067200 \<lparr> api_key = Some ''test-key'', api_secret = None \<rparr>
       = Inr [(''X-API-Key'', ''test-key''), (''X-SDK-Version'', ''0.1.0''),
              (''X-SDK-Language'', ''Python'')]"
  using signature_headers [of "auth_config demo_client"
          demo_hmac demo_b64 1704067200 "[]"]
        signature_headers [of "\<lparr> api_key = Some ''test-key'', api_secret = None \<rparr>"
          demo_hmac demo_b64 1704067200
          "[(''X-API-Key'', ''test-key''), (''X-SDK-Version'', ''0.1.0''),
              (''X-SDK-Language'', ''Python'')]"]
  by (simp add: demo_client_def truthy_def decimal.simps get_headers_def Let_def
        generate_signature_def demo_hmac_def demo_b64_def)

lemma attempt_loop_calls:
  "set (attempts (snd (attempt_loop d transport c a n))) \<subseteq> {c}"
  by (subst attempt_loop_attempts) (simp add: set_replicate_conv_if)

lemma attempt_loop_dispatches:
  "0 < n \<Longrightarrow> attempts (snd (attempt_loop d transport c a n)) \<noteq> []"
proof -
  assume "0 < n"
  then obtain left where n: "n = Suc left"
    by (cases n) simp_all
  show ?thesis
    unfolding n
    by (cases "transport a")
       (simp_all add: attempt_loop.simps(2) attempts_simps case_prod_unfold)
qed

lemma get_headers_auth:
  assumes "get_headers H B now cfg = Inr hs"
  shows "map_of hs ''X-API-Key'' = api_key cfg
       \<and> map_of hs ''X-SDK-Version'' = Some ''0.1.0''
       \<and> map_of hs ''X-SDK-Language'' = Some ''Python''
       \<and> map_of hs ''X-Organization-ID'' = None
       \<and> api_key cfg \<noteq> None"
  using assms
  by (auto simp: get_headers_def Let_def map_of_dict_set truthy_def
           split: if_splits option.splits)

lemma request_headers_auth:
  assumes "request_headers H B now self custom = Inr hs"
  shows "map_of hs ''X-API-Key'' = api_key (auth_config self)
       \<and> map_of hs ''X-SDK-Version'' = Some ''0.1.0''
       \<and> map_of hs ''X-SDK-Language'' = Some ''Python''
       \<and> (truthy (organization_id self) \<longrightarrow>
            map_of hs ''X-Organization-ID'' = organization_id self)"
proof -
  from assms obtain a where a: "get_headers H B now (auth_config self) = Inr a"
    by (auto simp: request_headers_def split: sum.splits)
  note auth = get_headers_auth [OF a]
  show ?thesis
  proof (cases "truthy (organization_id self)")
    case True
    then obtain org where org: "organization_id self = Some org"
      by (auto simp: truthy_def split: option.splits)
    from assms a True have hs: "hs = merge_headers (dict_set ''X-Organization-ID'' org a) custom"
      by (simp add: request_headers_def org)
    show ?thesis
      using auth True by (auto simp: hs map_of_merge_headers map_of_dict_set org)
  next
    case False
    from assms a False have hs: "hs = merge_headers a custom"
      by (simp add: request_headers_def)
    show ?thesis
      using auth False by (auto simp: hs map_of_merge_headers)
  qed
qed

lemma request_headers_merge:
  assumes "request_headers H B now self custom = Inr hs"
    and "request_headers H B now self [] = Inr a"
  shows "map_of hs k = (case map_of a k of Some v \<Rightarrow> Some v | None \<Rightarrow> map_of custom k)"
proof -
  from assms(2) obtain g where g: "get_headers H B now (auth_config self) = Inr g"
    by (auto simp: request_headers_def split: sum.splits)
  from assms(1) g have "hs = merge_headers a custom"
    using assms(2) by (simp add: request_headers_def Let_def)
  then show ?thesis
    by (simp add: map_of_merge_headers)
qed

text \<open>
  C5. Without an API key the request raises \<open>ValueError\<close> and dispatches nothing. With
  one, every call dispatched carries \<open>X-API-Key\<close> equal to the key, \<open>X-SDK-Version\<close>
  and \<open>X-SDK-Language\<close>, and \<open>X-Organization-ID\<close> equal to the client's organization
  when one is set; its headers are the auth headers together with the caller's headers
  of other names, no auth header being replaced.
\<close>

theorem dispatched_headers:
  "(\<not> truthy (api_key (auth_config self)) \<longrightarrow>
      request H B now transport self m ep data params custom = (Inl raise_ValueError, [])
    \<and> exn_class raise_ValueError = ValueError)
 \<and> (truthy (api_key (auth_config self)) \<and> 0 < max_retries (config self) \<longrightarrow>
      attempts (snd (request H B now transport self m ep data params custom)) \<noteq> [])
 \<and> (c \<in> set (attempts (snd (request H B now transport self m ep data params custom))) \<longrightarrow>
      map_of (call_headers c) ''X-API-Key'' = api_key (auth_config self)
    \<and> truthy (api_key (auth_config self))
    \<and> map_of (call_headers c) ''X-SDK-Version'' = Some ''0.1.0''
    \<and> map_of (call_headers c) ''X-SDK-Language'' = Some ''Python''
    \<and> (truthy (organization_id self) \<longrightarrow>
         map_of (call_headers c) ''X-Organization-ID'' = organization_id self)
    \<and> (\<exists>auth. request_headers H B now self [] = Inr auth
         \<and> (\<forall>k. map_of (call_headers c) k
                  = (case map_of auth k of Some v \<Rightarrow> Some v | None \<Rightarrow> map_of custom k))))"
proof (intro conjI impI)
  assume "\<not> truthy (api_key (auth_config self))"
  then show "request H B now transport self m ep data params custom = (Inl raise_ValueError, [])"
    by (simp add: request_def request_headers_def get_headers_unconfigured)
next
  show "exn_class raise_ValueError = ValueError"
    by (simp add: raise_ValueError_def)
next
  assume "truthy (api_key (auth_config self)) \<and> 0 < max_retries (config self)"
  then show "attempts (snd (request H B now transport self m ep data params custom)) \<noteq> []"
    using request_configured [of self H B now custom transport m ep data params]
          attempt_loop_dispatches
    by metis
next
  assume c: "c \<in> set (attempts (snd (request H B now transport self m ep data params custom)))"
  have key: "truthy (api_key (auth_config self))"
  proof (rule ccontr)
    assume "\<not> truthy (api_key (auth_config self))"
    then have "request H B now transport self m ep data params custom = (Inl raise_ValueError, [])"
      by (simp add: request_def request_headers_def get_headers_unconfigured)
    with c show False
      by (simp add: attempts_simps)
  qed
  then obtain hs where hs: "request_headers H B now self custom = Inr hs"
    and req: "request H B now transport self m ep data params custom =
           attempt_loop (retry_delay (config self)) transport
             \<lparr> call_method = m, call_url = ep, call_json = data,
               call_params = params, call_headers = hs \<rparr>
             0 (max_retries (config self))"
    by (rule request_configured)
  from c have "c = \<lparr> call_method = m, call_url = ep, call_json = data,
               call_params = params, call_headers = hs \<rparr>"
    unfolding req using attempt_loop_calls by blast
  then have ch: "call_headers c = hs"
    by simp
  from key obtain auth where auth: "request_headers H B now self [] = Inr auth"
    using request_headers_configured by blast
  note facts = request_headers_auth [OF hs]
  show "map_of (call_headers c) ''X-API-Key'' = api_key (auth_config self)"
    and "truthy (api_key (auth_config self))"
    and "map_of (call_headers c) ''X-SDK-Version'' = Some ''0.1.0''"
    and "map_of (call_headers c) ''X-SDK-Language'' = Some ''Python''"
    using facts key by (simp_all add: ch)
  show "map_of (call_headers c) ''X-Organization-ID'' = organization_id self"
    if "truthy (organization_id self)"
    using facts that by (simp add: ch)
  show "\<exists>auth. request_headers H B now self [] = Inr auth
         \<and> (\<forall>k. map_of (call_headers c) k
                  = (case map_of auth k of Some v \<Rightarrow> Some v | None \<Rightarrow> map_of custom k))"
    using auth request_headers_merge [OF hs auth] by (auto simp: ch)
qed

theorem dispatched_headers_witness:
  "attempts (snd (request demo_hmac demo_b64 1704067200 (always_returning ok_response)
       org_client ''GET'' ''/test'' None None
       [(''Custom-Header'', ''value''), (''X-API-Key'', ''other'')])) \<noteq> []
   \<and> map_of (call_headers (hd (attempts (snd (request demo_hmac demo_b64 1704067200
       (always_returning ok_response) org_client ''GET'' ''/test'' None None
       [(''Custom-Header'', ''value''), (''X-API-Key'', ''other'')]))))) ''X-API-Key''
       = Some ''test-api-key-12345''
   \<and> map_of (call_headers (hd (attempts (snd (request demo_hmac demo_b64 1704067200
       (always_returning ok_response) org_client ''GET'' ''/test'' None None
       [(''Custom-Header'', ''value''), (''X-API-Key'', ''other'')]))))) ''X-Organization-ID''
       = Some ''org_456''
   \<and> map_of (call_headers (hd (attempts (snd (request demo_hmac demo_b64 1704067200
       (always_returning ok_response) org_client ''GET'' ''/test'' None None
       [(''Custom-Header'', ''value''), (''X-API-Key'', ''other'')]))))) ''Custom-Header''
       = Some ''value''
   \<and> request demo_hmac demo_b64 1704067200 (always_returning ok_response)
       keyless_client ''GET'' ''/test'' None None [] = (Inl raise_ValueError, [])"
  using dispatched_headers [of org_client demo_hmac demo_b64 1704067200
          "always_returning ok_response" "''GET''" "''/test''" None None
          "[(''Custom-Header'', ''value''), (''X-API-Key'', ''other'')]"
          "hd (attempts (snd (request demo_hmac demo_b64 1704067200
             (always_returning ok_response) org_client ''GET'' ''/test'' None None
             [(''Custom-Header'', ''value''), (''X-API-Key'', ''other'')])))"]
        dispatched_headers [of keyless_client demo_hmac demo_b64 1704067200
          "always_returning ok_response" "''GET''" "''/test''" None None "[]" c0]
  by (simp add: request_def request_headers_def get_headers_def org_client_def
        keyless_client_def demo_client_def default_config_def truthy_def Let_def
        numeral_3_eq_3 attempt_loop.simps(2) attempts_simps dict_keys_def always_returning_def)

end
